theory Spec2Isabelle
  imports Complex_Main "HOL-Library.Monad_Syntax"
begin

section \<open>Numbers of the source\<close>

text \<open>
  Python floats and numpy scalars of \<^verbatim>\<open>micmon.py\<close> are modelled by \<^typ>\<open>real\<close>. The
  model says which expression each line computes; it has no rounding and no bounded range.
  Properties of the running program that rounding or range decide are therefore not theorems
  of this theory: that a gain moves strictly at every call, that it never passes below the
  literal 0.01, that a power of ten is never rounded to zero, that a product stays finite.

  What is inside the model is where an operation has no real value at all:
  \<^item> Python's own \<^verbatim>\<open>/\<close> on Python numbers raises \<^verbatim>\<open>ZeroDivisionError\<close> for a zero divisor;
  \<^item> numpy never raises there: it answers \<^verbatim>\<open>nan\<close> or \<^verbatim>\<open>inf\<close> (with a warning). Such an
    answer is \<open>None\<close> in the model, and it is propagated as numpy propagates \<^verbatim>\<open>nan\<close>.
\<close>

datatype error = ZeroDivisionError

definition py_truediv :: "real \<Rightarrow> real \<Rightarrow> error + real" where
  "py_truediv x y = (if y = 0 then Inl ZeroDivisionError else Inr (x / y))"

definition np_clip :: "real \<Rightarrow> real \<Rightarrow> real \<Rightarrow> real" where
  \<comment> \<open>\<^verbatim>\<open>np.clip(a, a_min, a_max)\<close> is \<^verbatim>\<open>minimum(maximum(a, a_min), a_max)\<close>.\<close>
  "np_clip a a_min a_max = min (max a a_min) a_max"

definition np_mean :: "real list \<Rightarrow> real option" where
  \<comment> \<open>The mean of an empty array is \<^verbatim>\<open>nan\<close>.\<close>
  "np_mean xs = (if xs = [] then None else Some (sum_list xs / real (length xs)))"

definition np_sqrt :: "real \<Rightarrow> real option" where
  "np_sqrt x = (if x < 0 then None else Some (sqrt x))"



section \<open>The gate object\<close>

record AudioNoiseGate =
  threshold :: real
  block_size :: int
  sample_rate :: real
  volume_db :: real
  volume :: real
  attack_coef :: real
  release_coef :: real
  current_gain :: real
  threshold_amplitude :: real
  inv_ratio :: real

text \<open>
  \<^verbatim>\<open>AudioNoiseGate.__init__\<close>. The arguments are Python numbers, so the two divisions
  \<^verbatim>\<open>-1.0 / (sample_rate * attack_time)\<close> and \<^verbatim>\<open>-1.0 / (sample_rate * release_time)\<close> are
  Python's and raise on a zero product. No argument is compared with zero, and the
  constructor raises no error of its own.

  On doubles the constructor does more than the model: a product of two tiny non-zero
  factors is rounded to zero and the division raises, and \<^verbatim>\<open>10 ** (threshold / 20.0)\<close> is
  rounded to zero for a threshold below about -6480 and raises \<^verbatim>\<open>OverflowError\<close> above
  about 6165. The model, over the reals, has none of the three.
\<close>

definition init :: "real \<Rightarrow> int \<Rightarrow> real \<Rightarrow> real \<Rightarrow> real \<Rightarrow> real \<Rightarrow> error + AudioNoiseGate" where
  "init threshold_arg block_size_arg sample_rate_arg attack_time release_time volume_db_arg =
     (let vdb = np_clip volume_db_arg (- 60) 12;
          vol = 10 powr (vdb / 20)
      in case py_truediv (- 1) (sample_rate_arg * attack_time) of
           Inl e \<Rightarrow> Inl e
         | Inr a \<Rightarrow>
             (case py_truediv (- 1) (sample_rate_arg * release_time) of
                Inl e \<Rightarrow> Inl e
              | Inr r \<Rightarrow>
                  Inr \<lparr> threshold = threshold_arg,
                        block_size = block_size_arg,
                        sample_rate = sample_rate_arg,
                        volume_db = vdb,
                        volume = vol,
                        attack_coef = exp a,
                        release_coef = exp r,
                        current_gain = 1,
                        threshold_amplitude = 10 powr (threshold_arg / 20),
                        inv_ratio = 1 / 10 \<rparr>))"

section \<open>The per-block callback\<close>

text \<open>
  \<^verbatim>\<open>audio_callback\<close> reads column 0 of \<^verbatim>\<open>indata\<close> (the list \<open>audio\<close>), updates
  \<^verbatim>\<open>self.current_gain\<close> and writes column 0 of \<^verbatim>\<open>outdata\<close>. The model returns the updated
  object and the written column. \<open>rms\<close>, \<open>target_gain\<close> and \<open>coef\<close> are the local
  variables of the callback, in the order of the source.
\<close>

definition rms :: "real list \<Rightarrow> real option" where
  "rms audio = do { m \<leftarrow> np_mean (map (\<lambda>x. x * x) audio); np_sqrt m }"






section \<open>The command line's volume\<close>

text \<open>
  Lines 136 to 151 of the script: a percentage outside 1 to 200 ends the process
  (\<open>None\<close>), any other is converted to decibels.
\<close>

definition volume_db_of_percent :: "real \<Rightarrow> real option" where
  "volume_db_of_percent volume_percent =
     (if volume_percent < 1 \<or> volume_percent > 200 then None
      else Some (20 * log 10 (volume_percent / 100)))"


section \<open>Construction\<close>

lemma init_fields:
  assumes "init thr bs sr atk rel vd = Inr g"
  shows "threshold g = thr" "block_size g = bs" "sample_rate g = sr"
    "volume_db g = np_clip vd (- 60) 12" "volume g = 10 powr (volume_db g / 20)"
    "attack_coef g = exp (- 1 / (sr * atk))" "release_coef g = exp (- 1 / (sr * rel))"
    "current_gain g = 1" "threshold_amplitude g = 10 powr (thr / 20)" "inv_ratio g = 1 / 10"
  using assms
  by (auto simp: init_def py_truediv_def Let_def split: if_splits)




text \<open>
  C6: the constructor clamps the volume in decibels to the interval from -60 to 12 before
  it derives the linear volume, and an out-of-range value is clamped, not rejected:
  whether construction succeeds does not depend on the volume, 999 dB gives the object
  that 12 dB gives, and -999 dB gives the object that -60 dB gives.
\<close>

theorem volume_db_clamped:
  "(init thr bs sr atk rel vd = Inr g \<longrightarrow>
      volume_db g = min (max vd (- 60)) 12 \<and> - 60 \<le> volume_db g \<and> volume_db g \<le> 12 \<and>
      volume g = 10 powr (volume_db g / 20)) \<and>
   isl (init thr bs sr atk rel vd) = isl (init thr bs sr atk rel vd') \<and>
   init thr bs sr atk rel 999 = init thr bs sr atk rel 12 \<and>
   init thr bs sr atk rel (- 999) = init thr bs sr atk rel (- 60)"
proof -
  have "init thr bs sr atk rel vd = Inr g \<Longrightarrow>
      volume_db g = min (max vd (- 60)) 12 \<and> - 60 \<le> volume_db g \<and> volume_db g \<le> 12 \<and>
      volume g = 10 powr (volume_db g / 20)"
    by (simp add: init_fields np_clip_def)
  moreover have "isl (init thr bs sr atk rel vd) = isl (init thr bs sr atk rel vd')"
    by (simp add: init_def py_truediv_def Let_def)
  moreover have "init thr bs sr atk rel 999 = init thr bs sr atk rel 12"
    by (simp add: init_def np_clip_def)
  moreover have "init thr bs sr atk rel (- 999) = init thr bs sr atk rel (- 60)"
    by (simp add: init_def np_clip_def)
  ultimately show ?thesis by blast
qed

theorem volume_db_clamped_witness:
  "volume_db (projr (init (- 25) 128 48000 (5 / 10000) (2 / 100) 999)) = 12 \<and>
   volume (projr (init (- 25) 128 48000 (5 / 10000) (2 / 100) 999)) = 10 powr (12 / 20) \<and>
   volume (projr (init (- 25) 128 48000 (5 / 10000) (2 / 100) (- 999))) = 10 powr (- 60 / 20)"
proof -
  have h: "init (- 25) 128 48000 (5 / 10000) (2 / 100) 999
             = Inr (projr (init (- 25) 128 48000 (5 / 10000) (2 / 100) 999))"
    by (simp add: init_def py_truediv_def Let_def)
  have h': "init (- 25) 128 48000 (5 / 10000) (2 / 100) (- 999)
             = Inr (projr (init (- 25) 128 48000 (5 / 10000) (2 / 100) (- 999)))"
    by (simp add: init_def py_truediv_def Let_def)
  note c = volume_db_clamped [of "- 25" 128 48000 "5 / 10000" "2 / 100" 999
      "projr (init (- 25) 128 48000 (5 / 10000) (2 / 100) 999)" 0,
      THEN conjunct1, rule_format, OF h]
  note c' = volume_db_clamped [of "- 25" 128 48000 "5 / 10000" "2 / 100" "- 999"
      "projr (init (- 25) 128 48000 (5 / 10000) (2 / 100) (- 999))" 0,
      THEN conjunct1, rule_format, OF h']
  show ?thesis
    using c c' by simp
qed

section \<open>The callback\<close>





lemma rms_empty: "rms [] = None"
  by (simp add: rms_def np_mean_def)














section \<open>The volume from the command line\<close>

lemma two_le_ten_powr: "(2 :: real) \<le> 10 powr (3 / 5)"
proof -
  have "(2 :: real) \<le> sqrt 10"
    by (rule real_le_rsqrt) simp
  also have "\<dots> = 10 powr (1 / 2)"
    by (simp add: powr_half_sqrt)
  also have "\<dots> \<le> 10 powr (3 / 5)"
    by (rule powr_mono) simp_all
  finally show ?thesis .
qed

lemma percent_db_range:
  assumes "1 \<le> p" "p \<le> 200"
  shows "- 60 \<le> 20 * log 10 (p / 100)" "20 * log 10 (p / 100) \<le> 12"
proof -
  have pos: "0 < p / 100"
    using assms(1) by simp
  have "(10 :: real) powr (- 3) \<le> 10 powr (- 2)"
    by (rule powr_mono) simp_all
  also have "\<dots> = 1 / 100"
    by (simp add: powr_minus_divide)
  also have "\<dots> \<le> p / 100"
    using assms(1) by simp
  finally have "- 3 \<le> log 10 (p / 100)"
    using pos by (simp add: le_log_iff)
  then show "- 60 \<le> 20 * log 10 (p / 100)"
    by simp
  have "p / 100 \<le> 2"
    using assms(2) by simp
  also note two_le_ten_powr
  finally have "p / 100 \<le> 10 powr (3 / 5)" .
  then have "log 10 (p / 100) \<le> 3 / 5"
    using pos by (subst log_le_iff) auto
  then show "20 * log 10 (p / 100) \<le> 12"
    by simp
qed

text \<open>
  C7: for a percentage from 1 to 200, the script's conversion to decibels followed by the
  constructor's clamp and conversion to a linear volume gives the percentage divided by
  100. The clamp does not intervene: the decibel value lies between -60 and 12.
\<close>

theorem percent_roundtrip:
  assumes "1 \<le> p" "p \<le> 200"
    and "init thr bs sr atk rel (20 * log 10 (p / 100)) = Inr g"
  shows "volume_db_of_percent p = Some (20 * log 10 (p / 100)) \<and>
         volume_db g = 20 * log 10 (p / 100) \<and> volume g = p / 100"
proof -
  have pos: "0 < p / 100"
    using assms(1) by simp
  have v: "volume_db g = 20 * log 10 (p / 100)"
    using init_fields(4) [OF assms(3)] percent_db_range [OF assms(1,2)]
    by (simp add: np_clip_def)
  have "volume g = 10 powr (log 10 (p / 100))"
    using init_fields(5) [OF assms(3)] v by simp
  also have "\<dots> = p / 100"
    using pos by simp
  finally show ?thesis
    using assms(1,2) v by (simp add: volume_db_of_percent_def)
qed

theorem percent_roundtrip_witness:
  "volume_db_of_percent 50 = Some (20 * log 10 (50 / 100)) \<and>
   volume (projr (init (- 25) 128 48000 (5 / 10000) (2 / 100) (20 * log 10 (50 / 100)))) = 50 / 100"
proof -
  have h: "init (- 25) 128 48000 (5 / 10000) (2 / 100) (20 * log 10 (50 / 100))
             = Inr (projr (init (- 25) 128 48000 (5 / 10000) (2 / 100) (20 * log 10 (50 / 100))))"
    by (simp add: init_def py_truediv_def Let_def)
  have a: "(1 :: real) \<le> 50" "(50 :: real) \<le> 200"
    by simp_all
  show ?thesis
    using percent_roundtrip [OF a h] by simp
qed

end
